theory Spec2Isabelle
  imports Main
begin

section \<open>Server side: the Express middlewares of backend/src/middleware/auth.js\<close>

subsection \<open>JavaScript values the middlewares look at\<close>

text \<open>
  A header value, a claim value or a key is a JavaScript string or \<open>undefined\<close>:
  a \<open>string option\<close>. The tests \<open>!x\<close> and \<open>a || b\<close> of the source treat the
  empty string like \<open>undefined\<close>.
\<close>

fun falsy :: "string option \<Rightarrow> bool" where
  "falsy None = True"
| "falsy (Some s) = (s = [])"

definition js_or :: "string option \<Rightarrow> string option \<Rightarrow> string option" where
  "js_or a b = (if falsy a then b else a)"

text \<open>
  \<open>String.prototype.split\<close> with a one-character separator: a string with \<open>n\<close>
  separators gives \<open>n + 1\<close> parts, empty parts included (\<open>''''.split(' ')\<close> is
  \<open>['''']\<close>). The result is never empty, so \<open>hd\<close> and \<open>tl\<close> below are on a
  non-empty list.
\<close>

fun split_on :: "char \<Rightarrow> string \<Rightarrow> string list" where
  "split_on c [] = [[]]"
| "split_on c (x # xs) =
     (let ps = split_on c xs
      in if x = c then [] # ps else (x # hd ps) # tl ps)"

subsection \<open>Requests, responses and the jsonwebtoken / jwks-rsa boundary\<close>

type_synonym claims = "string \<rightharpoonup> string"

record req =
  headers_authorization :: "string option"
  user :: "claims option"

text \<open>
  A middleware either answers (\<open>res.status(s).json({ message: m })\<close>) or calls
  \<open>next()\<close>, handing on the request as it has left it.
\<close>

datatype result = Respond nat string | Next req

text \<open>A thrown or rejected error; the catch block only reads its \<open>name\<close>.\<close>

datatype exn = Exn (name: string)

record decoded =
  kid :: "string option"
  alg :: "string option"

record jwk =
  publicKey :: "string option"
  rsaPublicKey :: "string option"

text \<open>
  The options object of \<open>jwt.verify\<close>. jsonwebtoken checks the issuer and the
  audience only when the caller passes \<open>issuer\<close> and \<open>audience\<close>.
\<close>

record verify_options =
  algorithms :: "string list"
  issuer :: "string option"
  audience :: "string option"

text \<open>
  The two libraries are not part of the repository; the middleware is modelled over any
  behaviour of theirs:
  \<^item> \<open>jwt_decode\<close> is \<open>jwt.decode(token, { complete: true })\<close>: \<open>Inr None\<close> for
    \<open>null\<close>, \<open>Inl\<close> when it throws (the call is inside the \<open>try\<close>);
  \<^item> \<open>client_getSigningKey\<close> is the callback result of \<open>client.getSigningKey(kid, cb)\<close>;
  \<^item> \<open>jwt_verify\<close> is \<open>jwt.verify(token, key, options)\<close>, \<open>Inl\<close> when it throws.
\<close>

record libs =
  jwt_decode :: "string \<Rightarrow> exn + decoded option"
  client_getSigningKey :: "string option \<Rightarrow> exn + jwk"
  jwt_verify :: "string \<Rightarrow> string option \<Rightarrow> verify_options \<Rightarrow> exn + claims"

text \<open>What a run of \<open>authenticate\<close> asked of the libraries, in order.\<close>

datatype effect =
    KeyLookup "string option"
  | Verify string "string option" verify_options

subsection \<open>getSigningKey and authenticate\<close>

definition getSigningKey :: "libs \<Rightarrow> string option \<Rightarrow> exn + string option" where
  "getSigningKey L k =
     (case client_getSigningKey L k of
        Inl err \<Rightarrow> Inl err
      | Inr key \<Rightarrow> Inr (js_or (publicKey key) (rsaPublicKey key)))"

text \<open>The catch block of \<open>authenticate\<close>: every error becomes a 401.\<close>

definition on_catch :: "exn \<Rightarrow> result" where
  "on_catch error =
     (if name error = ''TokenExpiredError'' then Respond 401 ''Token expired''
      else if name error = ''JsonWebTokenError'' then Respond 401 ''Invalid token''
      else Respond 401 ''Authentication failed'')"

definition verify_opts :: verify_options where
  "verify_opts = \<lparr>algorithms = [''RS256''], issuer = None, audience = None\<rparr>"

definition authenticate :: "libs \<Rightarrow> req \<Rightarrow> result \<times> effect list" where
  "authenticate L r =
     (let authHeader = headers_authorization r in
      if falsy authHeader then (Respond 401 ''No authorization header provided'', [])
      else
        let parts = split_on CHR '' '' (the authHeader) in
        if length parts \<noteq> 2 \<or> parts ! 0 \<noteq> ''Bearer''
        then (Respond 401 ''Authorization header format must be \"Bearer token\"'', [])
        else
          let token = parts ! 1 in
          case jwt_decode L token of
            Inl error \<Rightarrow> (on_catch error, [])
          | Inr None \<Rightarrow> (Respond 401 ''Invalid token'', [])
          | Inr (Some decodedToken) \<Rightarrow>
              (case getSigningKey L (kid decodedToken) of
                 Inl error \<Rightarrow> (on_catch error, [KeyLookup (kid decodedToken)])
               | Inr signingKey \<Rightarrow>
                   (case jwt_verify L token signingKey verify_opts of
                      Inl error \<Rightarrow>
                        (on_catch error,
                         [KeyLookup (kid decodedToken), Verify token signingKey verify_opts])
                    | Inr verifiedToken \<Rightarrow>
                        (Next (r\<lparr>user := Some verifiedToken\<rparr>),
                         [KeyLookup (kid decodedToken), Verify token signingKey verify_opts]))))"



subsection \<open>requireRole and requireAnyRole\<close>

definition requireRole :: "string \<Rightarrow> req \<Rightarrow> result" where
  "requireRole requiredRole r =
     (case user r of
        None \<Rightarrow> Respond 401 ''Authentication required''
      | Some u \<Rightarrow>
          (let userRole = u ''custom:role'' in
           if falsy userRole \<or> userRole \<noteq> Some requiredRole
           then Respond 403 ''Insufficient permissions''
           else Next r))"

definition requireAnyRole :: "string list \<Rightarrow> req \<Rightarrow> result" where
  "requireAnyRole roles r =
     (case user r of
        None \<Rightarrow> Respond 401 ''Authentication required''
      | Some u \<Rightarrow>
          (let userRole = u ''custom:role'' in
           if falsy userRole \<or> \<not> (\<exists>x \<in> set roles. Some x = userRole)
           then Respond 403 ''Insufficient permissions''
           else Next r))"

section \<open>Client side: frontend/src/services/api.js and the AuthContext provider\<close>

subsection \<open>JSON values, the persisted session and requests\<close>

text \<open>
  The fields of the token object and of a response body are strings or numbers
  (\<open>expiresIn\<close> is a number); a missing field reads as \<open>undefined\<close>, which is
  \<open>None\<close> of a map. \<open>JSON.stringify\<close> drops a field whose value is \<open>undefined\<close>,
  which is what the map update \<open>m(k := None)\<close> does.
\<close>

datatype jval = JStr string | JNum int

type_synonym jobj = "string \<rightharpoonup> jval"

text \<open>
  An entry of \<open>localStorage\<close> is a string. The interceptors only test it for
  truthiness and hand it to \<open>JSON.parse\<close>, so the entry is modelled by what these two
  make of it: the empty string (falsy), a string that \<open>JSON.parse\<close> throws on, the text
  \<open>null\<close> (whose property reads throw a TypeError) and the text of an object. Texts of
  other JSON values (numbers, strings, arrays) are outside the model.
\<close>

datatype stored = EmptyStr | NotJson | JsonNull | JsonObj jobj

fun truthy :: "jval option \<Rightarrow> bool" where
  "truthy None = False"
| "truthy (Some (JStr s)) = (s \<noteq> [])"
| "truthy (Some (JNum n)) = (n \<noteq> 0)"

text \<open>The header value built by the template \<open>`Bearer ${v}`\<close>, for whatever \<open>v\<close> is.\<close>

datatype auth_header = Bearer "jval option"

record request =
  url :: string
  body :: jobj
  authorization :: "auth_header option"
  retry :: bool

datatype error =
    AxiosError (config_of: request) (status_of: "nat option")
  | SyntaxError
  | TypeError
  | JsError string

datatype net_event = Sent request | RefreshPost "jval option"

text \<open>
  The state the module works on: the browser's \<open>localStorage\<close> and
  \<open>window.location.href\<close>, the default Authorization header of the axios instance
  (\<open>api.defaults.headers.common\<close>), and a log of the network calls made so far: the
  requests sent through the instance and the refresh calls posted with the global
  \<open>axios\<close> (which has no interceptors).
\<close>

record client =
  localStorage :: "string \<rightharpoonup> stored"
  location :: string
  defaults_authorization :: "auth_header option"
  net_log :: "net_event list"

datatype response = Success jobj | Failure "nat option"

text \<open>
  The network: what the backend answers to a request sent through the instance, and how
  the call \<open>axios.post(API_URL + '/auth/refresh', { refreshToken })\<close> settles.
\<close>

record env =
  server :: "request \<Rightarrow> response"
  refresh_endpoint :: "jval option \<Rightarrow> error + jobj"

subsection \<open>The request interceptor\<close>

definition request_interceptor :: "client \<Rightarrow> request \<Rightarrow> request" where
  "request_interceptor st config =
     (case localStorage st ''tokens'' of
        Some (JsonObj tokens) \<Rightarrow>
          if truthy (tokens ''accessToken'')
          then config\<lparr>authorization := Some (Bearer (tokens ''accessToken''))\<rparr>
          else config
      | _ \<Rightarrow> config)"

subsection \<open>The response interceptor\<close>

text \<open>
  The rejection handler is an async function with one \<open>await\<close>. It either settles
  without awaiting, or it has posted the refresh call and is suspended with the request
  and the token object it read. When it settles it rejects, or returns
  \<open>api(originalRequest)\<close>.
\<close>

datatype outcome = Reject error | Reissue request

datatype phase = Settled outcome | AwaitingRefresh request jobj

text \<open>The catch block.\<close>

definition refresh_failed :: "error \<Rightarrow> client \<Rightarrow> outcome \<times> client" where
  "refresh_failed refreshError st =
     (Reject refreshError,
      st\<lparr>localStorage := (localStorage st)(''tokens'' := None), location := ''/login''\<rparr>)"

text \<open>
  From the entry of the handler to the \<open>await\<close>. \<open>originalRequest\<close> is the object
  \<open>error.config\<close>, so setting \<open>_retry\<close> on it marks the error's own config.
\<close>

definition on_rejected_begin :: "error \<Rightarrow> client \<Rightarrow> phase \<times> client" where
  "on_rejected_begin error st =
     (case error of
        AxiosError originalRequest st_code \<Rightarrow>
          if st_code = Some 401 \<and> \<not> retry originalRequest then
            (let originalRequest = originalRequest\<lparr>retry := True\<rparr>;
                 error = AxiosError originalRequest st_code
             in case localStorage st ''tokens'' of
                  None \<Rightarrow> (Settled (Reject error), st)
                | Some EmptyStr \<Rightarrow> (Settled (Reject error), st)
                | Some NotJson \<Rightarrow>
                    (let (out, st') = refresh_failed SyntaxError st in (Settled out, st'))
                | Some JsonNull \<Rightarrow>
                    (let (out, st') = refresh_failed TypeError st in (Settled out, st'))
                | Some (JsonObj tokens) \<Rightarrow>
                    (AwaitingRefresh originalRequest tokens,
                     st\<lparr>net_log := net_log st @ [RefreshPost (tokens ''refreshToken'')]\<rparr>))
          else (Settled (Reject error), st)
      | _ \<Rightarrow> (Settled (Reject error), st))"

text \<open>
  From the settling of the refresh call to the end of the handler. A refresh call that
  succeeds carries a JSON object as \<open>data\<close>; fields it lacks read as \<open>undefined\<close>.
\<close>

definition on_refresh_settled ::
  "request \<Rightarrow> jobj \<Rightarrow> error + jobj \<Rightarrow> client \<Rightarrow> outcome \<times> client" where
  "on_refresh_settled originalRequest tokens settled st =
     (case settled of
        Inl refreshError \<Rightarrow> refresh_failed refreshError st
      | Inr data \<Rightarrow>
          (let newTokens = tokens
                 (''accessToken'' := data ''accessToken'',
                  ''idToken'' := data ''idToken'',
                  ''expiresIn'' := data ''expiresIn'')
           in (Reissue (originalRequest
                 \<lparr>authorization := Some (Bearer (newTokens ''accessToken''))\<rparr>),
               st\<lparr>localStorage := (localStorage st)(''tokens'' \<mapsto> JsonObj newTokens)\<rparr>)))"

text \<open>The handler run for one request on its own, the refresh call settling as the
  network says.\<close>

definition on_rejected :: "env \<Rightarrow> error \<Rightarrow> client \<Rightarrow> outcome \<times> client" where
  "on_rejected E error st =
     (case on_rejected_begin error st of
        (Settled out, st') \<Rightarrow> (out, st')
      | (AwaitingRefresh originalRequest tokens, st') \<Rightarrow>
          on_refresh_settled originalRequest tokens
            (refresh_endpoint E (tokens ''refreshToken'')) st')"

text \<open>
  A call through the instance: the request interceptor, the network, and on failure
  the rejection handler, whose \<open>api(originalRequest)\<close> is the recursive call. The
  config handed to \<open>api\<close> is the one axios sends and reports back as
  \<open>error.config\<close>, the \<open>_retry\<close> mark included; the recursion terminates because
  a reissued request carries that mark.
\<close>

function api :: "env \<Rightarrow> request \<Rightarrow> client \<Rightarrow> (error + jobj) \<times> client" where
  "api E config st =
     (let config = request_interceptor st config;
          st = st\<lparr>net_log := net_log st @ [Sent config]\<rparr>
      in case server E config of
           Success data \<Rightarrow> (Inr data, st)
         | Failure st_code \<Rightarrow>
             (case on_rejected E (AxiosError config st_code) st of
                (Reject error, st') \<Rightarrow> (Inl error, st')
              | (Reissue originalRequest, st') \<Rightarrow> api E originalRequest st'))"
  by pat_completeness auto
termination
  apply (relation "measure (\<lambda>(E, config, st). if retry config then 0 else 1)")
   apply simp
  apply (auto simp: on_rejected_def on_rejected_begin_def on_refresh_settled_def
      refresh_failed_def request_interceptor_def Let_def
      split: if_splits option.splits stored.splits sum.splits prod.splits phase.splits)
  done

text \<open>
  Several requests whose 401 responses arrive before any refresh call has settled: each
  handler runs to its \<open>await\<close> in turn.
\<close>

fun on_rejected_begin_all :: "error list \<Rightarrow> client \<Rightarrow> phase list \<times> client" where
  "on_rejected_begin_all [] st = ([], st)"
| "on_rejected_begin_all (error # errors) st =
     (let (p, st') = on_rejected_begin error st;
          (ps, st'') = on_rejected_begin_all errors st'
      in (p # ps, st''))"

definition refresh_calls :: "net_event list \<Rightarrow> nat" where
  "refresh_calls log = length (filter (\<lambda>e. case e of RefreshPost _ \<Rightarrow> True | _ \<Rightarrow> False) log)"

definition sends :: "net_event list \<Rightarrow> nat" where
  "sends log = length (filter (\<lambda>e. case e of Sent _ \<Rightarrow> True | _ \<Rightarrow> False) log)"

text \<open>What the persisted session holds in a field of the stored token object.\<close>

definition session_field :: "client \<Rightarrow> string \<Rightarrow> jval option" where
  "session_field st f =
     (case localStorage st ''tokens'' of
        Some (JsonObj tokens) \<Rightarrow> tokens f
      | _ \<Rightarrow> None)"

subsection \<open>AuthContext: logout and refreshTokens\<close>

text \<open>The React state of the provider that the two functions read and set.\<close>

record auth_ctx =
  tokens_state :: "jobj option"
  user_state :: "jobj option"

definition logout :: "auth_ctx \<Rightarrow> client \<Rightarrow> auth_ctx \<times> client" where
  "logout ctx st =
     (ctx\<lparr>tokens_state := None, user_state := None\<rparr>,
      st\<lparr>localStorage := (localStorage st)(''tokens'' := None),
         defaults_authorization := None\<rparr>)"

definition refreshTokens ::
  "env \<Rightarrow> auth_ctx \<Rightarrow> client \<Rightarrow> (error + jobj) \<times> auth_ctx \<times> client" where
  "refreshTokens E ctx st =
     (case tokens_state ctx of
        None \<Rightarrow> (Inl (JsError ''No refresh token available''), ctx, st)
      | Some tokens \<Rightarrow>
          if \<not> truthy (tokens ''refreshToken'')
          then (Inl (JsError ''No refresh token available''), ctx, st)
          else
            (case api E \<lparr>url = ''/auth/refresh'',
                         body = Map.empty(''refreshToken'' := tokens ''refreshToken''),
                         authorization = defaults_authorization st,
                         retry = False\<rparr> st of
               (Inr data, st') \<Rightarrow>
                 (let newTokens = tokens
                        (''accessToken'' := data ''accessToken'',
                         ''idToken'' := data ''idToken'',
                         ''expiresIn'' := data ''expiresIn'')
                  in (Inr newTokens,
                      ctx\<lparr>tokens_state := Some newTokens\<rparr>,
                      st'\<lparr>localStorage := (localStorage st')(''tokens'' \<mapsto> JsonObj newTokens),
                          defaults_authorization :=
                            Some (Bearer (newTokens ''accessToken''))\<rparr>))
             | (Inl err, st') \<Rightarrow>
                 (let (ctx', st'') = logout ctx st' in (Inl err, ctx', st''))))"

section \<open>Example inputs\<close>

text \<open>
  Concrete libraries, tokens and claims for the examples below. \<open>example_libs\<close>
  decodes three tokens (\<open>tokHS\<close> and \<open>tokHSx\<close> declare HS256, \<open>tokRS\<close> declares
  RS256; the key of \<open>tokHSx\<close> is unknown), throws on \<open>tokBad\<close>, knows one key, and
  verifies as jsonwebtoken does: it rejects a token outside the algorithm allow-list, and
  checks issuer and audience only when the options name them.
\<close>

definition foreign_claims :: claims where
  "foreign_claims =
     [''iss'' \<mapsto> ''https://other.example/pool'', ''aud'' \<mapsto> ''other-client'',
      ''sub'' \<mapsto> ''u-1'', ''custom:role'' \<mapsto> ''admin'']"

definition example_libs :: libs where
  "example_libs =
     \<lparr>jwt_decode = (\<lambda>t.
        if t = ''tokHS'' then Inr (Some \<lparr>kid = Some ''k1'', alg = Some ''HS256''\<rparr>)
        else if t = ''tokRS'' then Inr (Some \<lparr>kid = Some ''k1'', alg = Some ''RS256''\<rparr>)
        else if t = ''tokHSx'' then Inr (Some \<lparr>kid = Some ''k9'', alg = Some ''HS256''\<rparr>)
        else if t = ''tokBad'' then Inl (Exn ''TypeError'')
        else Inr None),
      client_getSigningKey = (\<lambda>k.
        if k = Some ''k1'' then Inr \<lparr>publicKey = Some ''PEM'', rsaPublicKey = None\<rparr>
        else Inl (Exn ''SigningKeyNotFoundError'')),
      jwt_verify = (\<lambda>t k opts.
        if t = ''tokRS'' \<and> k = Some ''PEM'' \<and> ''RS256'' \<in> set (algorithms opts)
           \<and> issuer opts \<in> {None, foreign_claims ''iss''}
           \<and> audience opts \<in> {None, foreign_claims ''aud''}
        then Inr foreign_claims
        else Inl (Exn ''JsonWebTokenError''))\<rparr>"

text \<open>
  A logged-in client, a logged-out one, a request, and two backends that answer every
  request with 401: at \<open>rejecting_env\<close> the refresh call succeeds, at
  \<open>failing_refresh_env\<close> it is rejected as the backend's refresh route rejects an
  invalid refresh token.
\<close>

definition example_tokens :: jobj where
  "example_tokens =
     [''accessToken'' \<mapsto> JStr ''a0'', ''idToken'' \<mapsto> JStr ''i0'',
      ''refreshToken'' \<mapsto> JStr ''r0'', ''expiresIn'' \<mapsto> JNum 3600]"

definition example_client :: client where
  "example_client =
     \<lparr>localStorage = [''tokens'' \<mapsto> JsonObj example_tokens], location = ''/pos'',
      defaults_authorization = None, net_log = []\<rparr>"

definition logged_out_client :: client where
  "logged_out_client =
     \<lparr>localStorage = Map.empty, location = ''/pos'', defaults_authorization = None,
      net_log = []\<rparr>"

definition example_request :: request where
  "example_request =
     \<lparr>url = ''/api/products'', body = Map.empty, authorization = None, retry = False\<rparr>"

definition other_request :: request where
  "other_request =
     \<lparr>url = ''/api/transactions/me'', body = Map.empty, authorization = None, retry = False\<rparr>"

definition refresh_request :: request where
  "refresh_request =
     \<lparr>url = ''/auth/refresh'', body = [''refreshToken'' \<mapsto> JStr ''r0''],
      authorization = None, retry = False\<rparr>"

definition example_refreshed :: jobj where
  "example_refreshed =
     [''accessToken'' \<mapsto> JStr ''a1'', ''idToken'' \<mapsto> JStr ''i1'',
      ''expiresIn'' \<mapsto> JNum 300]"

definition rejecting_env :: env where
  "rejecting_env =
     \<lparr>server = (\<lambda>config. Failure (Some 401)),
      refresh_endpoint = (\<lambda>refreshToken. Inr example_refreshed)\<rparr>"

definition failing_refresh_env :: env where
  "failing_refresh_env =
     \<lparr>server = (\<lambda>config. Failure (Some 401)),
      refresh_endpoint = (\<lambda>refreshToken. Inl (AxiosError refresh_request (Some 401)))\<rparr>"

text \<open>
  A backend whose refresh route answers with new tokens, and a provider state holding
  the tokens of the logged-in client.
\<close>

definition accepting_env :: env where
  "accepting_env =
     \<lparr>server = (\<lambda>config.
        if url config = ''/auth/refresh'' then Success example_refreshed
        else Failure (Some 401)),
      refresh_endpoint = (\<lambda>refreshToken. Inr example_refreshed)\<rparr>"

definition example_ctx :: auth_ctx where
  "example_ctx = \<lparr>tokens_state = Some example_tokens, user_state = None\<rparr>"

definition refreshed_tokens :: jobj where
  "refreshed_tokens =
     [''accessToken'' \<mapsto> JStr ''a1'', ''idToken'' \<mapsto> JStr ''i1'',
      ''refreshToken'' \<mapsto> JStr ''r0'', ''expiresIn'' \<mapsto> JNum 300]"

section \<open>Auxiliary facts about the middlewares\<close>

lemma split_on_no_sep: "c \<notin> set s \<Longrightarrow> split_on c s = [s]"
  by (induction s) (auto simp: Let_def)

lemma split_on_bearer:
  "CHR '' '' \<notin> set token \<Longrightarrow> split_on CHR '' '' (''Bearer '' @ token) = [''Bearer'', token]"
  by (simp add: split_on_no_sep Let_def)

lemma authenticate_bearer:
  assumes "headers_authorization r = Some (''Bearer '' @ token)"
    and "CHR '' '' \<notin> set token"
  shows "authenticate L r =
     (case jwt_decode L token of
        Inl error \<Rightarrow> (on_catch error, [])
      | Inr None \<Rightarrow> (Respond 401 ''Invalid token'', [])
      | Inr (Some decodedToken) \<Rightarrow>
          (case getSigningKey L (kid decodedToken) of
             Inl error \<Rightarrow> (on_catch error, [KeyLookup (kid decodedToken)])
           | Inr signingKey \<Rightarrow>
               (case jwt_verify L token signingKey verify_opts of
                  Inl error \<Rightarrow>
                    (on_catch error,
                     [KeyLookup (kid decodedToken), Verify token signingKey verify_opts])
                | Inr verifiedToken \<Rightarrow>
                    (Next (r\<lparr>user := Some verifiedToken\<rparr>),
                     [KeyLookup (kid decodedToken), Verify token signingKey verify_opts]))))"
proof -
  have parts: "split_on CHR '' '' (the (headers_authorization r)) = [''Bearer'', token]"
    using assms split_on_bearer by simp
  have nonempty: "\<not> falsy (headers_authorization r)"
    using assms(1) by simp
  show ?thesis
    unfolding authenticate_def Let_def
    by (simp add: parts nonempty split: option.split sum.split)
qed

lemma authenticate_decode_throws:
  assumes "headers_authorization r = Some (''Bearer '' @ token)"
    and "CHR '' '' \<notin> set token"
    and "jwt_decode L token = Inl error"
  shows "authenticate L r = (on_catch error, [])"
  using assms(3) by (simp add: authenticate_bearer [OF assms(1,2)])

lemma example_run_Bad:
  "authenticate example_libs \<lparr>headers_authorization = Some ''Bearer tokBad'', user = None\<rparr>
   = (Respond 401 ''Authentication failed'', [])"
  by (simp add: authenticate_def Let_def example_libs_def on_catch_def)

lemma example_key: "getSigningKey example_libs (Some ''k1'') = Inr (Some ''PEM'')"
  by (simp add: example_libs_def getSigningKey_def js_or_def)


lemma example_run_RS:
  "authenticate example_libs \<lparr>headers_authorization = Some ''Bearer tokRS'', user = None\<rparr>
   = (Next \<lparr>headers_authorization = Some ''Bearer tokRS'', user = Some foreign_claims\<rparr>,
      [KeyLookup (Some ''k1''), Verify ''tokRS'' (Some ''PEM'') verify_opts])"
  by (simp add: authenticate_def Let_def example_libs_def getSigningKey_def js_or_def
      on_catch_def verify_opts_def)

section \<open>Auxiliary facts about the interceptors\<close>

declare api.simps [simp del]

lemma request_interceptor_retry: "retry (request_interceptor st config) = retry config"
  by (simp add: request_interceptor_def split: option.split stored.split)

lemma refresh_calls_append:
  "refresh_calls (xs @ ys) = refresh_calls xs + refresh_calls ys"
  by (simp add: refresh_calls_def)

lemma sends_append: "sends (xs @ ys) = sends xs + sends ys"
  by (simp add: sends_def)

lemma on_rejected_begin_retried:
  "retry c \<Longrightarrow> on_rejected_begin (AxiosError c s) st = (Settled (Reject (AxiosError c s)), st)"
  by (simp add: on_rejected_begin_def)

lemma on_rejected_retried:
  "retry c \<Longrightarrow> on_rejected E (AxiosError c s) st = (Reject (AxiosError c s), st)"
  by (simp add: on_rejected_def on_rejected_begin_retried)

lemma on_rejected_begin_tokens:
  assumes "\<not> retry c" and "localStorage st ''tokens'' = Some (JsonObj t)"
  shows "on_rejected_begin (AxiosError c (Some 401)) st =
           (AwaitingRefresh (c\<lparr>retry := True\<rparr>) t,
            st\<lparr>net_log := net_log st @ [RefreshPost (t ''refreshToken'')]\<rparr>)"
  using assms by (simp add: on_rejected_begin_def)

lemma on_rejected_begin_log:
  assumes "on_rejected_begin e st = (p, st')"
  shows "net_log st' = net_log st \<or> (\<exists>x. net_log st' = net_log st @ [RefreshPost x])"
  using assms
  by (auto simp: on_rejected_begin_def refresh_failed_def Let_def
      split: error.splits if_splits option.splits stored.splits)

lemma on_rejected_begin_awaiting:
  assumes "on_rejected_begin e st = (AwaitingRefresh r t, st')"
  shows "retry r"
  using assms
  by (auto simp: on_rejected_begin_def refresh_failed_def Let_def
      split: error.splits if_splits option.splits stored.splits)

lemma on_refresh_settled_log:
  assumes "on_refresh_settled r t settled st = (out, st')"
  shows "net_log st' = net_log st \<and> (\<forall>r'. out = Reissue r' \<longrightarrow> retry r' = retry r)"
  using assms
  by (auto simp: on_refresh_settled_def refresh_failed_def Let_def split: sum.splits)

lemma on_rejected_log:
  assumes "on_rejected E e st = (out, st')"
  shows "(net_log st' = net_log st \<or> (\<exists>x. net_log st' = net_log st @ [RefreshPost x]))
         \<and> (\<forall>r. out = Reissue r \<longrightarrow>
               retry r \<and> (\<exists>x. net_log st' = net_log st @ [RefreshPost x]))"
proof (cases "on_rejected_begin e st")
  case (Pair p st1)
  note log1 = on_rejected_begin_log [OF Pair]
  show ?thesis
  proof (cases p)
    case (Settled out1)
    with Pair assms have "out = out1" and "st' = st1"
      by (simp_all add: on_rejected_def)
    moreover have "\<forall>r. out1 \<noteq> Reissue r"
      using Pair Settled
      by (auto simp: on_rejected_begin_def refresh_failed_def Let_def
          split: error.splits if_splits option.splits stored.splits)
    ultimately show ?thesis using log1 by simp
  next
    case (AwaitingRefresh r t)
    with Pair assms
    have settled: "on_refresh_settled r t (refresh_endpoint E (t ''refreshToken'')) st1 = (out, st')"
      by (simp add: on_rejected_def)
    have "retry r"
      using Pair AwaitingRefresh on_rejected_begin_awaiting by simp
    moreover have "\<exists>x. net_log st1 = net_log st @ [RefreshPost x]"
      using Pair AwaitingRefresh
      by (auto simp: on_rejected_begin_def refresh_failed_def Let_def
          split: error.splits if_splits option.splits stored.splits)
    ultimately show ?thesis
      using on_refresh_settled_log [OF settled] by auto
  qed
qed

lemma api_retried:
  assumes "retry config"
  shows "api E config st =
     (let config' = request_interceptor st config;
          st1 = st\<lparr>net_log := net_log st @ [Sent config']\<rparr>
      in case server E config' of
           Success data \<Rightarrow> (Inr data, st1)
         | Failure st_code \<Rightarrow> (Inl (AxiosError config' st_code), st1))"
  using assms
  by (subst api.simps)
     (simp add: Let_def on_rejected_retried request_interceptor_retry split: response.split)

lemma api_retried_log:
  assumes "retry config"
  shows "\<exists>c. net_log (snd (api E config st)) = net_log st @ [Sent c]"
  using assms by (simp add: api_retried Let_def split: response.split)

lemma api_log:
  "\<exists>c. net_log (snd (api E config st)) = net_log st @ [Sent c]
     \<or> (\<exists>x. net_log (snd (api E config st)) = net_log st @ [Sent c, RefreshPost x])
     \<or> (\<exists>x c'. net_log (snd (api E config st)) = net_log st @ [Sent c, RefreshPost x, Sent c'])"
proof -
  define c where "c = request_interceptor st config"
  define st1 where "st1 = st\<lparr>net_log := net_log st @ [Sent c]\<rparr>"
  have unfold: "api E config st =
      (case server E c of
         Success data \<Rightarrow> (Inr data, st1)
       | Failure st_code \<Rightarrow>
           (case on_rejected E (AxiosError c st_code) st1 of
              (Reject error, st') \<Rightarrow> (Inl error, st')
            | (Reissue originalRequest, st') \<Rightarrow> api E originalRequest st'))"
    unfolding c_def st1_def by (subst api.simps) (simp add: Let_def)
  show ?thesis
  proof (cases "server E c")
    case (Success data)
    with unfold show ?thesis by (auto simp: st1_def)
  next
    case (Failure st_code)
    obtain out st2 where rej: "on_rejected E (AxiosError c st_code) st1 = (out, st2)"
      by (cases "on_rejected E (AxiosError c st_code) st1") auto
    note log2 = on_rejected_log [OF rej]
    show ?thesis
    proof (cases out)
      case (Reject error)
      with unfold Failure rej have "snd (api E config st) = st2" by simp
      with log2 show ?thesis by (auto simp: st1_def)
    next
      case (Reissue r)
      with log2 have r: "retry r" by simp
      from unfold Failure rej Reissue have "api E config st = api E r st2" by simp
      with api_retried_log [OF r, of E st2] log2 Reissue show ?thesis
        by (auto simp: st1_def)
    qed
  qed
qed

lemma on_rejected_storage_frame:
  assumes "on_rejected E e st = (out, st')" and "k \<noteq> ''tokens''"
  shows "localStorage st' k = localStorage st k"
  using assms
  by (auto simp: on_rejected_def on_rejected_begin_def on_refresh_settled_def
      refresh_failed_def Let_def
      split: error.splits if_splits option.splits stored.splits sum.splits)

lemma api_retried_storage:
  assumes "retry config"
  shows "localStorage (snd (api E config st)) = localStorage st"
  using assms by (simp add: api_retried Let_def split: response.split)

lemma api_storage_frame:
  assumes "api E config st = (res, st1)"
  shows "\<forall>k. k \<noteq> ''tokens'' \<longrightarrow> localStorage st1 k = localStorage st k"
proof (intro allI impI)
  fix k :: string
  assume k: "k \<noteq> ''tokens''"
  define c where "c = request_interceptor st config"
  define st0 where "st0 = st\<lparr>net_log := net_log st @ [Sent c]\<rparr>"
  have unfold: "api E config st =
      (case server E c of
         Success data \<Rightarrow> (Inr data, st0)
       | Failure st_code \<Rightarrow>
           (case on_rejected E (AxiosError c st_code) st0 of
              (Reject error, st') \<Rightarrow> (Inl error, st')
            | (Reissue originalRequest, st') \<Rightarrow> api E originalRequest st'))"
    unfolding c_def st0_def by (subst api.simps) (simp add: Let_def)
  show "localStorage st1 k = localStorage st k"
  proof (cases "server E c")
    case (Success data)
    with unfold assms show ?thesis by (auto simp: st0_def)
  next
    case (Failure st_code)
    obtain out st2 where rej: "on_rejected E (AxiosError c st_code) st0 = (out, st2)"
      by (cases "on_rejected E (AxiosError c st_code) st0") auto
    have frame2: "localStorage st2 k = localStorage st k"
      using on_rejected_storage_frame [OF rej k] by (simp add: st0_def)
    show ?thesis
    proof (cases out)
      case (Reject error)
      with unfold Failure rej assms have "st1 = st2" by simp
      with frame2 show ?thesis by simp
    next
      case (Reissue r)
      with on_rejected_log [OF rej] have r: "retry r" by simp
      from unfold Failure rej Reissue assms have "api E r st2 = (res, st1)" by simp
      then have "st1 = snd (api E r st2)" by simp
      with api_retried_storage [OF r, of E st2] frame2 show ?thesis by simp
    qed
  qed
qed

lemma on_rejected_begin_all_tokens:
  assumes "\<forall>e \<in> set errors. \<exists>c. e = AxiosError c (Some 401) \<and> \<not> retry c"
    and "localStorage st ''tokens'' = Some (JsonObj tokens)"
  shows "on_rejected_begin_all errors st =
      (map (\<lambda>e. AwaitingRefresh ((config_of e)\<lparr>retry := True\<rparr>) tokens) errors,
       st\<lparr>net_log := net_log st @ map (\<lambda>e. RefreshPost (tokens ''refreshToken'')) errors\<rparr>)"
  using assms
proof (induction errors arbitrary: st)
  case Nil
  then show ?case by simp
next
  case (Cons e errors)
  from Cons.prems(1) obtain c where e: "e = AxiosError c (Some 401)" and c: "\<not> retry c"
    by auto
  define st1 where "st1 = st\<lparr>net_log := net_log st @ [RefreshPost (tokens ''refreshToken'')]\<rparr>"
  have first: "on_rejected_begin (AxiosError c (Some 401)) st
      = (AwaitingRefresh (c\<lparr>retry := True\<rparr>) tokens, st1)"
    unfolding st1_def using c Cons.prems(2) by (rule on_rejected_begin_tokens)
  have "localStorage st1 ''tokens'' = Some (JsonObj tokens)"
    using Cons.prems(2) by (simp add: st1_def)
  with Cons.IH [of st1] Cons.prems(1)
  have rest: "on_rejected_begin_all errors st1 =
      (map (\<lambda>e. AwaitingRefresh ((config_of e)\<lparr>retry := True\<rparr>) tokens) errors,
       st1\<lparr>net_log := net_log st1 @ map (\<lambda>e. RefreshPost (tokens ''refreshToken'')) errors\<rparr>)"
    by simp
  show ?case
    unfolding e by (simp add: first rest) (simp add: st1_def)
qed

lemma example_run_refresh:
  "on_rejected rejecting_env (AxiosError example_request (Some 401)) example_client =
     (Reissue (example_request\<lparr>retry := True, authorization := Some (Bearer (Some (JStr ''a1'')))\<rparr>),
      example_client
        \<lparr>localStorage := [''tokens'' \<mapsto> JsonObj (example_tokens
            (''accessToken'' \<mapsto> JStr ''a1'', ''idToken'' \<mapsto> JStr ''i1'',
             ''expiresIn'' \<mapsto> JNum 300))],
         net_log := [RefreshPost (Some (JStr ''r0''))]\<rparr>)"
  by (simp add: on_rejected_def on_rejected_begin_def on_refresh_settled_def Let_def
      rejecting_env_def example_request_def example_client_def example_tokens_def
      example_refreshed_def)

lemma example_run_failing_refresh:
  "api failing_refresh_env example_request example_client =
     (Inl (AxiosError refresh_request (Some 401)),
      \<lparr>localStorage = Map.empty, location = ''/login'', defaults_authorization = None,
       net_log = [Sent (example_request\<lparr>authorization := Some (Bearer (Some (JStr ''a0'')))\<rparr>),
                  RefreshPost (Some (JStr ''r0''))]\<rparr>)"
  by (subst api.simps)
     (simp add: on_rejected_def on_rejected_begin_def on_refresh_settled_def refresh_failed_def
      request_interceptor_def Let_def failing_refresh_env_def example_request_def
      example_client_def example_tokens_def)

lemma example_run_rejecting:
  "api rejecting_env example_request example_client =
     (Inl (AxiosError
        (example_request\<lparr>retry := True, authorization := Some (Bearer (Some (JStr ''a1'')))\<rparr>)
        (Some 401)),
      \<lparr>localStorage = [''tokens'' \<mapsto> JsonObj (example_tokens
            (''accessToken'' \<mapsto> JStr ''a1'', ''idToken'' \<mapsto> JStr ''i1'',
             ''expiresIn'' \<mapsto> JNum 300))],
       location = ''/pos'', defaults_authorization = None,
       net_log =
         [Sent (example_request\<lparr>authorization := Some (Bearer (Some (JStr ''a0'')))\<rparr>),
          RefreshPost (Some (JStr ''r0'')),
          Sent (example_request
            \<lparr>retry := True, authorization := Some (Bearer (Some (JStr ''a1'')))\<rparr>)]\<rparr>)"
  by (subst api.simps, subst api.simps)
     (simp add: on_rejected_def on_rejected_begin_def on_refresh_settled_def refresh_failed_def
      request_interceptor_def Let_def rejecting_env_def example_request_def
      example_client_def example_tokens_def example_refreshed_def)

lemma refreshed_tokens_eq:
  "example_tokens(''accessToken'' := example_refreshed ''accessToken'',
     ''idToken'' := example_refreshed ''idToken'',
     ''expiresIn'' := example_refreshed ''expiresIn'') = refreshed_tokens"
  by (rule ext) (simp add: example_tokens_def example_refreshed_def refreshed_tokens_def)

lemma example_run_refreshTokens:
  "refreshTokens accepting_env example_ctx example_client =
     (Inr refreshed_tokens,
      \<lparr>tokens_state = Some refreshed_tokens, user_state = None\<rparr>,
      \<lparr>localStorage = [''tokens'' \<mapsto> JsonObj refreshed_tokens], location = ''/pos'',
       defaults_authorization = Some (Bearer (Some (JStr ''a1''))),
       net_log = [Sent \<lparr>url = ''/auth/refresh'', body = [''refreshToken'' \<mapsto> JStr ''r0''],
                       authorization = Some (Bearer (Some (JStr ''a0''))), retry = False\<rparr>]\<rparr>)"
proof -
  have call: "api accepting_env
      \<lparr>url = ''/auth/refresh'', body = Map.empty(''refreshToken'' := example_tokens ''refreshToken''),
       authorization = defaults_authorization example_client, retry = False\<rparr> example_client
    = (Inr example_refreshed,
       example_client\<lparr>net_log :=
         [Sent \<lparr>url = ''/auth/refresh'', body = [''refreshToken'' \<mapsto> JStr ''r0''],
                authorization = Some (Bearer (Some (JStr ''a0''))), retry = False\<rparr>]\<rparr>)"
    by (subst api.simps)
       (simp add: request_interceptor_def Let_def accepting_env_def example_client_def
        example_tokens_def)
  have rt: "truthy (example_tokens ''refreshToken'')"
    by (simp add: example_tokens_def)
  show ?thesis
    unfolding refreshTokens_def
    by (simp add: example_ctx_def rt call Let_def refreshed_tokens_eq)
       (simp add: example_client_def refreshed_tokens_def)
qed

section \<open>Properties of authenticate\<close>




text \<open>
  C3, as stated, asks that a verified token whose issuer or audience is not the
  configured one fails. \<open>authenticate\<close> configures no expected issuer or audience and
  passes none to \<open>jwt.verify\<close>. The example library accepts \<open>tokRS\<close> under the
  options \<open>authenticate\<close> passes and would reject it had the Cognito pool been passed as
  \<open>issuer\<close>; the token, issued by another pool, is accepted.
\<close>

theorem issuer_not_checked_counterexample:
  "foreign_claims ''iss'' = Some ''https://other.example/pool''
   \<and> jwt_verify example_libs ''tokRS'' (Some ''PEM'')
        \<lparr>algorithms = [''RS256''],
         issuer = Some ''https://cognito-idp.us-east-1.amazonaws.com/pool1'',
         audience = None\<rparr> = Inl (Exn ''JsonWebTokenError'')
   \<and> fst (authenticate example_libs
        \<lparr>headers_authorization = Some ''Bearer tokRS'', user = None\<rparr>)
      = Next \<lparr>headers_authorization = Some ''Bearer tokRS'', user = Some foreign_claims\<rparr>"
  by (simp add: example_run_RS) (simp add: example_libs_def foreign_claims_def)

text \<open>
  C3, amended. \<open>authenticate\<close> checks no issuer and no audience: it calls
  \<open>jwt.verify\<close> with the RS256 allow-list as the only option, and every token for which
  that call returns a payload is accepted, the payload becoming \<open>req.user\<close> and
  \<open>next()\<close> being called, whatever issuer and audience the payload names.
\<close>

theorem authenticate_accepts_what_verify_returns:
  assumes "headers_authorization r = Some (''Bearer '' @ token)"
    and "CHR '' '' \<notin> set token"
    and "jwt_decode L token = Inr (Some d)"
    and "getSigningKey L (kid d) = Inr signingKey"
    and "jwt_verify L token signingKey
           \<lparr>algorithms = [''RS256''], issuer = None, audience = None\<rparr> = Inr verifiedToken"
  shows "authenticate L r =
           (Next (r\<lparr>user := Some verifiedToken\<rparr>),
            [KeyLookup (kid d),
             Verify token signingKey
               \<lparr>algorithms = [''RS256''], issuer = None, audience = None\<rparr>])"
  using assms(3,4,5)
  by (simp add: authenticate_bearer [OF assms(1,2)] verify_opts_def)

theorem authenticate_accepts_what_verify_returns_witness:
  "authenticate example_libs \<lparr>headers_authorization = Some ''Bearer tokRS'', user = None\<rparr>
   = (Next \<lparr>headers_authorization = Some ''Bearer tokRS'', user = Some foreign_claims\<rparr>,
      [KeyLookup (Some ''k1''),
       Verify ''tokRS'' (Some ''PEM'')
         \<lparr>algorithms = [''RS256''], issuer = None, audience = None\<rparr>])"
proof -
  have d: "jwt_decode example_libs ''tokRS''
      = Inr (Some \<lparr>kid = Some ''k1'', alg = Some ''RS256''\<rparr>)"
    by (simp add: example_libs_def)
  have v: "jwt_verify example_libs ''tokRS'' (Some ''PEM'')
             \<lparr>algorithms = [''RS256''], issuer = None, audience = None\<rparr> = Inr foreign_claims"
    by (simp add: example_libs_def)
  show ?thesis
    using authenticate_accepts_what_verify_returns
      [of "\<lparr>headers_authorization = Some ''Bearer tokRS'', user = None\<rparr>" "''tokRS''"
          example_libs "\<lparr>kid = Some ''k1'', alg = Some ''RS256''\<rparr>" "Some ''PEM''"
          foreign_claims] d v example_key
    by simp
qed




section \<open>Properties of the role checks\<close>

text \<open>
  C8. A role requirement names a role (the routes declare \<open>'admin'\<close>; the roles are
  admin, manager and cashier), so it is not the empty string. For every request carrying
  verified claims and every such requirement, \<open>requireRole\<close> calls \<open>next()\<close> if and
  only if the role claim is present and equal to the required role, and
  \<open>requireAnyRole\<close> if and only if it is present and a member of the list. Otherwise
  the request is refused with 403 "Insufficient permissions", both when the role claim
  is absent (NoRole) and when it is present and does not match (RoleMismatch).
\<close>

theorem role_check_decision:
  assumes "user r = Some u"
    and "requiredRole \<noteq> []"
    and "[] \<notin> set roles"
  shows "(requireRole requiredRole r = Next r \<longleftrightarrow> u ''custom:role'' = Some requiredRole)
         \<and> (requireAnyRole roles r = Next r
              \<longleftrightarrow> (\<exists>x. u ''custom:role'' = Some x \<and> x \<in> set roles))
         \<and> (u ''custom:role'' = None \<longrightarrow>
              requireRole requiredRole r = Respond 403 ''Insufficient permissions''
              \<and> requireAnyRole roles r = Respond 403 ''Insufficient permissions'')
         \<and> (u ''custom:role'' \<noteq> None \<and> u ''custom:role'' \<noteq> Some requiredRole \<longrightarrow>
              requireRole requiredRole r = Respond 403 ''Insufficient permissions'')
         \<and> (u ''custom:role'' \<noteq> None \<and> \<not> (\<exists>x. u ''custom:role'' = Some x \<and> x \<in> set roles) \<longrightarrow>
              requireAnyRole roles r = Respond 403 ''Insufficient permissions'')"
  using assms
  by (cases "u ''custom:role''") (auto simp: requireRole_def requireAnyRole_def)

theorem role_check_decision_witness:
  "requireRole ''admin'' \<lparr>headers_authorization = None, user = Some foreign_claims\<rparr>
     = Next \<lparr>headers_authorization = None, user = Some foreign_claims\<rparr>
   \<and> requireAnyRole [''manager'', ''cashier'']
        \<lparr>headers_authorization = None, user = Some foreign_claims\<rparr>
     = Respond 403 ''Insufficient permissions''
   \<and> requireRole ''admin'' \<lparr>headers_authorization = None, user = Some Map.empty\<rparr>
     = Respond 403 ''Insufficient permissions''"
proof -
  have role: "foreign_claims ''custom:role'' = Some ''admin''"
    by (simp add: foreign_claims_def)
  from role_check_decision
    [where r = "\<lparr>headers_authorization = None, user = Some foreign_claims\<rparr>"
       and u = foreign_claims and requiredRole = "''admin''"
       and roles = "[''manager'', ''cashier'']"] role
  have "requireRole ''admin'' \<lparr>headers_authorization = None, user = Some foreign_claims\<rparr>
      = Next \<lparr>headers_authorization = None, user = Some foreign_claims\<rparr>"
    and "requireAnyRole [''manager'', ''cashier'']
        \<lparr>headers_authorization = None, user = Some foreign_claims\<rparr>
      = Respond 403 ''Insufficient permissions''"
    by simp_all
  moreover from role_check_decision
    [where r = "\<lparr>headers_authorization = None, user = Some Map.empty\<rparr>"
       and u = Map.empty and requiredRole = "''admin''"
       and roles = "[''manager'', ''cashier'']"]
  have "requireRole ''admin'' \<lparr>headers_authorization = None, user = Some Map.empty\<rparr>
      = Respond 403 ''Insufficient permissions''"
    by simp
  ultimately show ?thesis by simp
qed

text \<open>
  C9. When the authentication middleware has attached no user to the request, both
  role checks answer 401 "Authentication required": they neither answer 403 nor call
  \<open>next()\<close>.
\<close>

theorem require_role_without_user:
  "requireRole requiredRole (r\<lparr>user := None\<rparr>) = Respond 401 ''Authentication required''
   \<and> requireAnyRole roles (r\<lparr>user := None\<rparr>) = Respond 401 ''Authentication required''"
  by (simp add: requireRole_def requireAnyRole_def)

theorem require_role_without_user_witness:
  "requireRole ''admin'' \<lparr>headers_authorization = Some ''Bearer abc'', user = None\<rparr>
     = Respond 401 ''Authentication required''
   \<and> requireAnyRole [''admin'', ''manager'']
       \<lparr>headers_authorization = Some ''Bearer abc'', user = None\<rparr>
     = Respond 401 ''Authentication required''"
  using require_role_without_user
    [of "''admin''" "\<lparr>headers_authorization = Some ''Bearer abc'', user = None\<rparr>"
        "[''admin'', ''manager'']"]
  by simp

section \<open>Properties of the response interceptor\<close>

text \<open>
  C4. A request that already carries \<open>_retry\<close> and receives an authorization failure is
  rejected at once with that error: no refresh call is made and nothing is changed.
  Hence, whatever the backend and the refresh endpoint answer, one call through the
  instance posts at most one refresh call and sends the request at most twice.
\<close>

theorem retried_request_is_not_refreshed_again:
  "(retry config \<longrightarrow>
      on_rejected E (AxiosError config st_code) st = (Reject (AxiosError config st_code), st))
   \<and> refresh_calls (net_log (snd (api E config st))) \<le> refresh_calls (net_log st) + 1
   \<and> sends (net_log (snd (api E config st))) \<le> sends (net_log st) + 2"
proof -
  have "refresh_calls (net_log (snd (api E config st))) \<le> refresh_calls (net_log st) + 1"
    using api_log [of E config st]
    by (auto simp: refresh_calls_append refresh_calls_def)
  moreover have "sends (net_log (snd (api E config st))) \<le> sends (net_log st) + 2"
    using api_log [of E config st]
    by (auto simp: sends_append sends_def)
  ultimately show ?thesis
    by (simp add: on_rejected_retried)
qed

theorem retried_request_is_not_refreshed_again_witness:
  "on_rejected rejecting_env (AxiosError (example_request\<lparr>retry := True\<rparr>) (Some 401))
       example_client
     = (Reject (AxiosError (example_request\<lparr>retry := True\<rparr>) (Some 401)), example_client)
   \<and> refresh_calls (net_log (snd (api rejecting_env example_request example_client))) \<le> 1
   \<and> sends (net_log (snd (api rejecting_env example_request example_client))) \<le> 2
   \<and> fst (api rejecting_env example_request example_client)
     = Inl (AxiosError
         (example_request\<lparr>retry := True, authorization := Some (Bearer (Some (JStr ''a1'')))\<rparr>)
         (Some 401))"
proof -
  have "refresh_calls (net_log example_client) = 0" and "sends (net_log example_client) = 0"
    by (simp_all add: example_client_def refresh_calls_def sends_def)
  with retried_request_is_not_refreshed_again
    [of "example_request\<lparr>retry := True\<rparr>" rejecting_env "Some 401" example_client]
    retried_request_is_not_refreshed_again
    [of example_request rejecting_env "Some 401" example_client]
  have "on_rejected rejecting_env (AxiosError (example_request\<lparr>retry := True\<rparr>) (Some 401))
       example_client
     = (Reject (AxiosError (example_request\<lparr>retry := True\<rparr>) (Some 401)), example_client)"
    and "refresh_calls (net_log (snd (api rejecting_env example_request example_client))) \<le> 1"
    and "sends (net_log (snd (api rejecting_env example_request example_client))) \<le> 2"
    by simp_all
  moreover have "fst (api rejecting_env example_request example_client)
     = Inl (AxiosError
         (example_request\<lparr>retry := True, authorization := Some (Bearer (Some (JStr ''a1'')))\<rparr>)
         (Some 401))"
    by (simp add: example_run_rejecting)
  ultimately show ?thesis by simp
qed

text \<open>
  C10. When \<open>localStorage\<close> holds no entry under \<open>tokens\<close>, the handler of a 401
  settles without awaiting: it posts no refresh call, rejects with the error it was given
  (whose request it has marked \<open>_retry\<close>), and leaves the state as it was.
\<close>

theorem no_session_no_refresh:
  assumes "localStorage st ''tokens'' = None"
  shows "on_rejected_begin (AxiosError config (Some 401)) st
           = (Settled (Reject (AxiosError (config\<lparr>retry := True\<rparr>) (Some 401))), st)
         \<and> on_rejected E (AxiosError config (Some 401)) st
           = (Reject (AxiosError (config\<lparr>retry := True\<rparr>) (Some 401)), st)"
proof -
  have "retry config \<Longrightarrow> config\<lparr>retry := True\<rparr> = config"
    by (cases config) simp
  then show ?thesis
    using assms by (auto simp: on_rejected_def on_rejected_begin_def)
qed

theorem no_session_no_refresh_witness:
  "on_rejected rejecting_env (AxiosError example_request (Some 401)) logged_out_client
     = (Reject (AxiosError (example_request\<lparr>retry := True\<rparr>) (Some 401)), logged_out_client)
   \<and> refresh_calls (net_log logged_out_client) = 0"
  using no_session_no_refresh [of logged_out_client example_request rejecting_env]
  by (simp add: logged_out_client_def refresh_calls_def)

text \<open>
  C5, as stated, asks that a call whose refresh fails is rejected with the original
  authorization error. The catch block returns \<open>Promise.reject(refreshError)\<close>: the call
  is rejected with the error of the refresh call, here the 401 of the refresh route, not
  with the 401 of \<open>/api/products\<close>.
\<close>

theorem refresh_failure_rejects_with_refresh_error_counterexample:
  "fst (api failing_refresh_env example_request example_client)
     = Inl (AxiosError refresh_request (Some 401))
   \<and> url refresh_request = ''/auth/refresh''
   \<and> url example_request = ''/api/products''"
  by (simp add: example_run_failing_refresh)
     (simp add: refresh_request_def example_request_def)

text \<open>
  C5, amended. For every request that receives its first 401 while a token object is
  stored, if the refresh call fails then the \<open>tokens\<close> entry is removed from
  \<open>localStorage\<close>, the page is sent to \<open>/login\<close>, and the call is rejected with the
  error of the refresh call.
\<close>

theorem refresh_failure_clears_session:
  assumes "\<not> retry config"
    and "localStorage st ''tokens'' = Some (JsonObj tokens)"
    and "refresh_endpoint E (tokens ''refreshToken'') = Inl refreshError"
  shows "on_rejected E (AxiosError config (Some 401)) st =
           (Reject refreshError,
            st\<lparr>localStorage := (localStorage st)(''tokens'' := None),
               location := ''/login'',
               net_log := net_log st @ [RefreshPost (tokens ''refreshToken'')]\<rparr>)"
  using assms(3)
  by (simp add: on_rejected_def on_rejected_begin_tokens [OF assms(1,2)]
      on_refresh_settled_def refresh_failed_def)

theorem refresh_failure_clears_session_witness:
  "on_rejected failing_refresh_env (AxiosError example_request (Some 401)) example_client =
     (Reject (AxiosError refresh_request (Some 401)),
      \<lparr>localStorage = Map.empty, location = ''/login'', defaults_authorization = None,
       net_log = [RefreshPost (Some (JStr ''r0''))]\<rparr>)"
  using refresh_failure_clears_session
    [of example_request example_client example_tokens failing_refresh_env
        "AxiosError refresh_request (Some 401)"]
  by (simp add: example_request_def example_client_def failing_refresh_env_def
      example_tokens_def)

text \<open>
  C6, as stated, asks that a successful refresh replaces the access and ID tokens and
  touches nothing else of the persisted session. The new token object also takes
  \<open>expiresIn\<close> from the refresh response: the stored 3600 becomes 300.
\<close>

theorem refresh_replaces_expiresIn_counterexample:
  "session_field example_client ''expiresIn'' = Some (JNum 3600)
   \<and> session_field
        (snd (on_rejected rejecting_env (AxiosError example_request (Some 401)) example_client))
        ''expiresIn'' = Some (JNum 300)"
  by (simp add: example_run_refresh session_field_def)
     (simp add: example_client_def example_tokens_def example_refreshed_def)

text \<open>
  C6, amended. A successful refresh stores a token object in which \<open>accessToken\<close>,
  \<open>idToken\<close> and \<open>expiresIn\<close> are the values of the refresh response and every other
  field, the refresh token among them, is as it was in the object the refresh started
  from; no other entry of \<open>localStorage\<close> is touched. This holds for the interceptor,
  which starts from the stored object, and for \<open>refreshTokens\<close> of the AuthContext,
  which starts from the provider's token state.
\<close>

theorem refresh_success_updates_session:
  "(\<not> retry config \<and> localStorage st ''tokens'' = Some (JsonObj tokens)
      \<and> refresh_endpoint E (tokens ''refreshToken'') = Inr data
      \<and> st' = snd (on_rejected E (AxiosError config (Some 401)) st)
    \<longrightarrow> session_field st' f =
          (if f \<in> {''accessToken'', ''idToken'', ''expiresIn''} then data f else tokens f)
        \<and> session_field st' ''refreshToken'' = tokens ''refreshToken''
        \<and> (k \<noteq> ''tokens'' \<longrightarrow> localStorage st' k = localStorage st k)
        \<and> location st' = location st)
   \<and> (tokens_state ctx = Some tokens
      \<and> refreshTokens E ctx st = (Inr newTokens, ctx', st')
    \<longrightarrow> (\<exists>data st1.
          api E \<lparr>url = ''/auth/refresh'',
                 body = Map.empty(''refreshToken'' := tokens ''refreshToken''),
                 authorization = defaults_authorization st, retry = False\<rparr> st
            = (Inr data, st1)
          \<and> session_field st' f =
            (if f \<in> {''accessToken'', ''idToken'', ''expiresIn''} then data f else tokens f))
        \<and> session_field st' ''refreshToken'' = tokens ''refreshToken''
        \<and> (k \<noteq> ''tokens'' \<longrightarrow> localStorage st' k = localStorage st k)
        \<and> tokens_state ctx' = Some newTokens
        \<and> localStorage st' ''tokens'' = Some (JsonObj newTokens))"
proof (intro conjI impI)
  assume a: "\<not> retry config \<and> localStorage st ''tokens'' = Some (JsonObj tokens)
      \<and> refresh_endpoint E (tokens ''refreshToken'') = Inr data
      \<and> st' = snd (on_rejected E (AxiosError config (Some 401)) st)"
  then have run: "on_rejected E (AxiosError config (Some 401)) st =
      (Reissue (config\<lparr>retry := True, authorization := Some (Bearer (data ''accessToken''))\<rparr>),
       st\<lparr>localStorage := (localStorage st)(''tokens'' \<mapsto> JsonObj (tokens
             (''accessToken'' := data ''accessToken'',
              ''idToken'' := data ''idToken'',
              ''expiresIn'' := data ''expiresIn''))),
          net_log := net_log st @ [RefreshPost (tokens ''refreshToken'')]\<rparr>)"
    by (simp add: on_rejected_def on_rejected_begin_tokens on_refresh_settled_def)
  with a show "session_field st' f =
      (if f \<in> {''accessToken'', ''idToken'', ''expiresIn''} then data f else tokens f)"
    by (simp add: session_field_def)
  from a run show "session_field st' ''refreshToken'' = tokens ''refreshToken''"
    by (simp add: session_field_def)
  from a run show "localStorage st' k = localStorage st k" if "k \<noteq> ''tokens''"
    using that by simp
  from a run show "location st' = location st"
    by simp
next
  assume b: "tokens_state ctx = Some tokens
      \<and> refreshTokens E ctx st = (Inr newTokens, ctx', st')"
  define rq where "rq = \<lparr>url = ''/auth/refresh'',
      body = Map.empty(''refreshToken'' := tokens ''refreshToken''),
      authorization = defaults_authorization st, retry = False\<rparr>"
  obtain res st1 where call: "api E rq st = (res, st1)"
    by (cases "api E rq st") auto
  from b call obtain data where res: "res = Inr data"
    and new: "newTokens = tokens(''accessToken'' := data ''accessToken'',
        ''idToken'' := data ''idToken'', ''expiresIn'' := data ''expiresIn'')"
    and st': "st' = st1\<lparr>localStorage := (localStorage st1)(''tokens'' \<mapsto> JsonObj newTokens),
        defaults_authorization := Some (Bearer (newTokens ''accessToken''))\<rparr>"
    and ctx': "ctx' = ctx\<lparr>tokens_state := Some newTokens\<rparr>"
    by (auto simp: refreshTokens_def rq_def logout_def Let_def
        split: if_splits sum.splits prod.splits)
  from new st' have "session_field st' f =
      (if f \<in> {''accessToken'', ''idToken'', ''expiresIn''} then data f else tokens f)"
    by (simp add: session_field_def)
  with call res show "\<exists>data st1.
      api E \<lparr>url = ''/auth/refresh'',
             body = Map.empty(''refreshToken'' := tokens ''refreshToken''),
             authorization = defaults_authorization st, retry = False\<rparr> st
        = (Inr data, st1)
      \<and> session_field st' f =
        (if f \<in> {''accessToken'', ''idToken'', ''expiresIn''} then data f else tokens f)"
    unfolding rq_def by blast
  from new st' show "session_field st' ''refreshToken'' = tokens ''refreshToken''"
    by (simp add: session_field_def)
  from st' api_storage_frame [OF call]
  show "localStorage st' k = localStorage st k" if "k \<noteq> ''tokens''"
    using that by simp
  from ctx' show "tokens_state ctx' = Some newTokens" by simp
  from st' show "localStorage st' ''tokens'' = Some (JsonObj newTokens)" by simp
qed

theorem refresh_success_updates_session_witness:
  "session_field
      (snd (on_rejected rejecting_env (AxiosError example_request (Some 401)) example_client))
      ''accessToken'' = Some (JStr ''a1'')
   \<and> session_field
      (snd (on_rejected rejecting_env (AxiosError example_request (Some 401)) example_client))
      ''refreshToken'' = Some (JStr ''r0'')
   \<and> session_field (snd (snd (refreshTokens accepting_env example_ctx example_client)))
      ''refreshToken'' = Some (JStr ''r0'')
   \<and> localStorage (snd (snd (refreshTokens accepting_env example_ctx example_client)))
      ''tokens'' = Some (JsonObj refreshed_tokens)"
proof -
  define s1 where
    "s1 = snd (on_rejected rejecting_env (AxiosError example_request (Some 401)) example_client)"
  define s2 where "s2 = snd (snd (refreshTokens accepting_env example_ctx example_client))"
  have fields: "example_refreshed ''accessToken'' = Some (JStr ''a1'')"
    "example_tokens ''refreshToken'' = Some (JStr ''r0'')"
    by (simp_all add: example_refreshed_def example_tokens_def)
  have pre1: "\<not> retry example_request
      \<and> localStorage example_client ''tokens'' = Some (JsonObj example_tokens)
      \<and> refresh_endpoint rejecting_env (example_tokens ''refreshToken'') = Inr example_refreshed
      \<and> s1 = snd (on_rejected rejecting_env (AxiosError example_request (Some 401))
                  example_client)"
    by (simp add: example_request_def example_client_def rejecting_env_def s1_def)
  have pre2: "tokens_state example_ctx = Some example_tokens
      \<and> refreshTokens accepting_env example_ctx example_client
          = (Inr refreshed_tokens, \<lparr>tokens_state = Some refreshed_tokens, user_state = None\<rparr>, s2)"
    by (simp add: s2_def example_run_refreshTokens) (simp add: example_ctx_def)
  note inst1 = refresh_success_updates_session
      [where config = example_request and st = example_client and tokens = example_tokens
         and E = rejecting_env and data = example_refreshed and f = "''accessToken''"
         and st' = s1 and k = "''other''" and ctx = example_ctx
         and newTokens = refreshed_tokens and ctx' = example_ctx]
  note inst2 = refresh_success_updates_session
      [where config = example_request and st = example_client and tokens = example_tokens
         and E = accepting_env and data = example_refreshed and f = "''accessToken''"
         and st' = s2 and k = "''other''" and ctx = example_ctx
         and newTokens = refreshed_tokens
         and ctx' = "\<lparr>tokens_state = Some refreshed_tokens, user_state = None\<rparr>"]
  from inst1 pre1 have "session_field s1 ''accessToken'' = example_refreshed ''accessToken''"
    and "session_field s1 ''refreshToken'' = example_tokens ''refreshToken''"
    by simp_all
  moreover from inst2 pre2
  have "session_field s2 ''refreshToken'' = example_tokens ''refreshToken''"
    and "localStorage s2 ''tokens'' = Some (JsonObj refreshed_tokens)"
    by blast+
  ultimately show ?thesis
    unfolding s1_def [symmetric] s2_def [symmetric] by (simp add: fields)
qed

text \<open>
  C1, as stated, asks that requests whose 401 responses arrive together share one
  refresh call. The interceptor keeps no record of a refresh in flight: the handler of
  each request posts a refresh call of its own. Two requests that receive a 401 before
  any refresh has settled post two refresh calls.
\<close>

theorem two_concurrent_401_two_refresh_calls_counterexample:
  "refresh_calls (net_log example_client) = 0
   \<and> refresh_calls (net_log (snd (on_rejected_begin_all
        [AxiosError example_request (Some 401), AxiosError other_request (Some 401)]
        example_client))) = 2"
  by (simp add: example_client_def example_request_def other_request_def
      on_rejected_begin_def refresh_calls_def Let_def)

text \<open>
  C1, amended. For every group of N requests that receive a first 401 before any
  refresh call has settled, while a token object is stored, the interceptor posts N
  refresh calls, one for each request, each with the stored refresh token; each request
  is then suspended on its own call, and when that call succeeds the request is reissued
  with the access token of its own refresh response.
\<close>

theorem concurrent_401_each_posts_refresh:
  assumes "\<forall>e \<in> set errors. \<exists>c. e = AxiosError c (Some 401) \<and> \<not> retry c"
    and "localStorage st ''tokens'' = Some (JsonObj tokens)"
  shows "refresh_calls (net_log (snd (on_rejected_begin_all errors st)))
           = refresh_calls (net_log st) + length errors
         \<and> net_log (snd (on_rejected_begin_all errors st))
           = net_log st @ map (\<lambda>e. RefreshPost (tokens ''refreshToken'')) errors
         \<and> fst (on_rejected_begin_all errors st)
           = map (\<lambda>e. AwaitingRefresh ((config_of e)\<lparr>retry := True\<rparr>) tokens) errors
         \<and> localStorage (snd (on_rejected_begin_all errors st)) = localStorage st
         \<and> (\<forall>c data st'. fst (on_refresh_settled c tokens (Inr data) st')
              = Reissue (c\<lparr>authorization := Some (Bearer (data ''accessToken''))\<rparr>))"
proof -
  have run: "on_rejected_begin_all errors st =
      (map (\<lambda>e. AwaitingRefresh ((config_of e)\<lparr>retry := True\<rparr>) tokens) errors,
       st\<lparr>net_log := net_log st @ map (\<lambda>e. RefreshPost (tokens ''refreshToken'')) errors\<rparr>)"
    using assms by (rule on_rejected_begin_all_tokens)
  have "refresh_calls (map (\<lambda>e. RefreshPost (tokens ''refreshToken'')) errors) = length errors"
    by (simp add: refresh_calls_def)
  then show ?thesis
    by (simp add: run refresh_calls_append on_refresh_settled_def)
qed

theorem concurrent_401_each_posts_refresh_witness:
  "refresh_calls (net_log (snd (on_rejected_begin_all
      [AxiosError example_request (Some 401), AxiosError other_request (Some 401),
       AxiosError example_request (Some 401)]
      example_client))) = 3"
  using concurrent_401_each_posts_refresh
    [of "[AxiosError example_request (Some 401), AxiosError other_request (Some 401),
          AxiosError example_request (Some 401)]" example_client example_tokens]
  by (simp add: example_client_def example_request_def other_request_def refresh_calls_def)

end
